theory Spec2Isabelle
  imports Main "HOL-Library.Word" "HOL-Library.Signed_Division"
begin

section \<open>Scalars\<close>

text \<open>
  The Go package is generic over \<^verbatim>\<open>V Number\<close>. This development takes \<^verbatim>\<open>V\<close> to be
  a signed integer type of Go (\<^verbatim>\<open>int8\<close>, \<^verbatim>\<open>int16\<close>, \<^verbatim>\<open>int32\<close>, \<^verbatim>\<open>int64\<close>, \<^verbatim>\<open>int\<close>): a
  value is a word of \<open>LENGTH('a)\<close> bits read in two's complement. Addition,
  subtraction and multiplication wrap around, the comparisons are the signed ones
  (\<open><s\<close>, \<open>\<le>s\<close>), and \<^verbatim>\<open>/\<close> is the quotient truncated towards zero. The scenarios
  with literal coordinates are stated at 64 bits, Go's \<^verbatim>\<open>int\<close>.
\<close>

definition go_div :: "'a::len word \<Rightarrow> 'a word \<Rightarrow> 'a word" where
  "go_div a b = word_of_int (sint a sdiv sint b)"

section \<open>Point\<close>

record 'v Point =
  X :: 'v
  Y :: 'v

text \<open>\<^verbatim>\<open>func Pt[V Number](X, Y V) Point[V]\<close>\<close>

definition Pt :: "'a::len word \<Rightarrow> 'a word \<Rightarrow> 'a word Point" where
  "Pt x y = \<lparr>X = x, Y = y\<rparr>"

text \<open>\<^verbatim>\<open>func (p Point[V]) Add(q Point[V]) Point[V]\<close>\<close>

definition Point_Add :: "'a::len word Point \<Rightarrow> 'a word Point \<Rightarrow> 'a word Point" where
  "Point_Add p q = \<lparr>X = X p + X q, Y = Y p + Y q\<rparr>"

text \<open>\<^verbatim>\<open>func (p Point[V]) Sub(q Point[V]) Point[V]\<close>\<close>

definition Point_Sub :: "'a::len word Point \<Rightarrow> 'a word Point \<Rightarrow> 'a word Point" where
  "Point_Sub p q = \<lparr>X = X p - X q, Y = Y p - Y q\<rparr>"

section \<open>Rectangle\<close>

record 'v Rectangle =
  Min_pt :: "'v Point"
  Max_pt :: "'v Point"

text \<open>The zero value \<^verbatim>\<open>Rectangle[V]{}\<close>.\<close>

definition ZR :: "'a::len word Rectangle" where
  "ZR = \<lparr>Min_pt = \<lparr>X = 0, Y = 0\<rparr>, Max_pt = \<lparr>X = 0, Y = 0\<rparr>\<rparr>"

text \<open>A rectangle is well-formed if \<^verbatim>\<open>Min.X <= Max.X\<close> and likewise for \<^verbatim>\<open>Y\<close>.\<close>

definition well_formed :: "'a::len word Rectangle \<Rightarrow> bool" where
  "well_formed r = (X (Min_pt r) \<le>s X (Max_pt r) \<and> Y (Min_pt r) \<le>s Y (Max_pt r))"

text \<open>\<^verbatim>\<open>func (r Rectangle[V]) Dx() V\<close> and \<^verbatim>\<open>Dy\<close>\<close>

definition Dx :: "'a::len word Rectangle \<Rightarrow> 'a word" where
  "Dx r = X (Max_pt r) - X (Min_pt r)"

definition Dy :: "'a::len word Rectangle \<Rightarrow> 'a word" where
  "Dy r = Y (Max_pt r) - Y (Min_pt r)"

text \<open>\<^verbatim>\<open>func (p Point[V]) In(r Rectangle[V]) bool\<close>\<close>

definition Point_In :: "'a::len word Point \<Rightarrow> 'a word Rectangle \<Rightarrow> bool" where
  "Point_In p r =
     (X (Min_pt r) \<le>s X p \<and> X p <s X (Max_pt r) \<and>
      Y (Min_pt r) \<le>s Y p \<and> Y p <s Y (Max_pt r))"

text \<open>
  \<^verbatim>\<open>func (p Point[V]) Mod(r Rectangle[V]) Point[V]\<close>.
  The two statements \<^verbatim>\<open>math.Mod(float64(p.X), float64(w))\<close> and
  \<^verbatim>\<open>math.Mod(float64(p.Y), float64(w))\<close> call a function without side effects and
  drop its result, so they leave \<^verbatim>\<open>p\<close> as it is and have no counterpart here.
\<close>

definition Point_Mod :: "'a::len word Point \<Rightarrow> 'a word Rectangle \<Rightarrow> 'a word Point" where
  "Point_Mod p r =
     (let w = Dx r; h = Dy r;
          p = Point_Sub p (Min_pt r);
          p = (if X p <s 0 then p\<lparr>X := X p + w\<rparr> else p);
          p = (if Y p <s 0 then p\<lparr>Y := Y p + h\<rparr> else p)
      in Point_Add p (Min_pt r))"

text \<open>\<^verbatim>\<open>func (r Rectangle[V]) Empty() bool\<close>\<close>

definition Empty :: "'a::len word Rectangle \<Rightarrow> bool" where
  "Empty r = (X (Max_pt r) \<le>s X (Min_pt r) \<or> Y (Max_pt r) \<le>s Y (Min_pt r))"

text \<open>\<^verbatim>\<open>func (r Rectangle[V]) Inset(n V) Rectangle[V]\<close>\<close>

definition Inset :: "'a::len word Rectangle \<Rightarrow> 'a word \<Rightarrow> 'a word Rectangle" where
  "Inset r n =
     (let r = (if Dx r <s 2 * n
               then (let r = r\<lparr>Min_pt := (Min_pt r)\<lparr>X := go_div (X (Min_pt r) + X (Max_pt r)) 2\<rparr>\<rparr>
                     in r\<lparr>Max_pt := (Max_pt r)\<lparr>X := X (Min_pt r)\<rparr>\<rparr>)
               else (let r = r\<lparr>Min_pt := (Min_pt r)\<lparr>X := X (Min_pt r) + n\<rparr>\<rparr>
                     in r\<lparr>Max_pt := (Max_pt r)\<lparr>X := X (Max_pt r) - n\<rparr>\<rparr>));
          r = (if Dy r <s 2 * n
               then (let r = r\<lparr>Min_pt := (Min_pt r)\<lparr>Y := go_div (Y (Min_pt r) + Y (Max_pt r)) 2\<rparr>\<rparr>
                     in r\<lparr>Max_pt := (Max_pt r)\<lparr>Y := Y (Min_pt r)\<rparr>\<rparr>)
               else (let r = r\<lparr>Min_pt := (Min_pt r)\<lparr>Y := Y (Min_pt r) + n\<rparr>\<rparr>
                     in r\<lparr>Max_pt := (Max_pt r)\<lparr>Y := Y (Max_pt r) - n\<rparr>\<rparr>))
      in r)"

text \<open>\<^verbatim>\<open>func (r Rectangle[V]) Intersect(s Rectangle[V]) Rectangle[V]\<close>\<close>

definition Intersect :: "'a::len word Rectangle \<Rightarrow> 'a word Rectangle \<Rightarrow> 'a word Rectangle" where
  "Intersect r s =
     (let r = (if X (Min_pt r) <s X (Min_pt s) then r\<lparr>Min_pt := (Min_pt r)\<lparr>X := X (Min_pt s)\<rparr>\<rparr> else r);
          r = (if Y (Min_pt r) <s Y (Min_pt s) then r\<lparr>Min_pt := (Min_pt r)\<lparr>Y := Y (Min_pt s)\<rparr>\<rparr> else r);
          r = (if X (Max_pt s) <s X (Max_pt r) then r\<lparr>Max_pt := (Max_pt r)\<lparr>X := X (Max_pt s)\<rparr>\<rparr> else r);
          r = (if Y (Max_pt s) <s Y (Max_pt r) then r\<lparr>Max_pt := (Max_pt r)\<lparr>Y := Y (Max_pt s)\<rparr>\<rparr> else r)
      in if Empty r then ZR else r)"


text \<open>\<^verbatim>\<open>func (r Rectangle[V]) Eq(s Rectangle[V]) bool\<close>\<close>

definition Rectangle_Eq :: "'a::len word Rectangle \<Rightarrow> 'a word Rectangle \<Rightarrow> bool" where
  "Rectangle_Eq r s = (r = s \<or> Empty r \<and> Empty s)"


text \<open>\<^verbatim>\<open>func Rect[V Number](x0, y0, x1, y1 V) Rectangle[V]\<close>\<close>

definition Rect :: "'a::len word \<Rightarrow> 'a word \<Rightarrow> 'a word \<Rightarrow> 'a word \<Rightarrow> 'a word Rectangle" where
  "Rect x0 y0 x1 y1 =
     (let (x0, x1) = (if x1 <s x0 then (x1, x0) else (x0, x1));
          (y0, y1) = (if y1 <s y0 then (y1, y0) else (y0, y1))
      in \<lparr>Min_pt = \<lparr>X = x0, Y = y0\<rparr>, Max_pt = \<lparr>X = x1, Y = y1\<rparr>\<rparr>)"

section \<open>The specification's vocabulary\<close>

text \<open>
  The larger and the smaller of two scalars in \<^verbatim>\<open>V\<close>'s order, and the bounds the
  specification gives for \<^verbatim>\<open>Intersect\<close>: \<^verbatim>\<open>Min = max(r.Min, s.Min)\<close> per axis and
  \<^verbatim>\<open>Max = min(r.Max, s.Max)\<close> per axis. These three definitions follow the
  specification's words; the theorems compare them with the functions translated
  from the code.
\<close>

definition smax :: "'a::len word \<Rightarrow> 'a word \<Rightarrow> 'a word" where
  "smax a b = (if a <s b then b else a)"

definition smin :: "'a::len word \<Rightarrow> 'a word \<Rightarrow> 'a word" where
  "smin a b = (if b <s a then b else a)"

definition spec_bounds :: "'a::len word Rectangle \<Rightarrow> 'a word Rectangle \<Rightarrow> 'a word Rectangle" where
  "spec_bounds r s =
     \<lparr>Min_pt = \<lparr>X = smax (X (Min_pt r)) (X (Min_pt s)), Y = smax (Y (Min_pt r)) (Y (Min_pt s))\<rparr>,
      Max_pt = \<lparr>X = smin (X (Max_pt r)) (X (Max_pt s)), Y = smin (Y (Max_pt r)) (Y (Max_pt s))\<rparr>\<rparr>"

section \<open>Scalar facts\<close>

text \<open>Unfolding the signed comparisons lets the simplifier decide them on literals.\<close>

lemmas signed_eval = word_sless_alt word_sle_eq Let_def







lemma Rectangle_eqI:
  assumes "X (Min_pt r) = X (Min_pt s)" "Y (Min_pt r) = Y (Min_pt s)"
    "X (Max_pt r) = X (Max_pt s)" "Y (Max_pt r) = Y (Max_pt s)"
  shows "r = (s :: 'v Rectangle)"
  using assms by (intro Rectangle.equality Point.equality) simp_all

lemma Intersect_spec_bounds:
  "Intersect r s = (if Empty (spec_bounds r s) then ZR else spec_bounds r s)"
proof -
  have "(let r = (if X (Min_pt r) <s X (Min_pt s) then r\<lparr>Min_pt := (Min_pt r)\<lparr>X := X (Min_pt s)\<rparr>\<rparr> else r);
          r = (if Y (Min_pt r) <s Y (Min_pt s) then r\<lparr>Min_pt := (Min_pt r)\<lparr>Y := Y (Min_pt s)\<rparr>\<rparr> else r);
          r = (if X (Max_pt s) <s X (Max_pt r) then r\<lparr>Max_pt := (Max_pt r)\<lparr>X := X (Max_pt s)\<rparr>\<rparr> else r);
          r = (if Y (Max_pt s) <s Y (Max_pt r) then r\<lparr>Max_pt := (Max_pt r)\<lparr>Y := Y (Max_pt s)\<rparr>\<rparr> else r)
      in r) = spec_bounds r s"
    by (rule Rectangle_eqI) (simp_all add: Let_def spec_bounds_def smax_def smin_def)
  then show ?thesis
    by (simp add: Intersect_def Let_def)
qed

section \<open>Facts about rectangles\<close>












lemma Point_In_Empty: "Empty r \<Longrightarrow> \<not> Point_In p r"
  by (auto simp: Empty_def Point_In_def word_sle_eq word_sless_alt)







lemma Inset_fields:
  "X (Min_pt (Inset r n)) = (if Dx r <s 2 * n then go_div (X (Min_pt r) + X (Max_pt r)) 2 else X (Min_pt r) + n)"
  "X (Max_pt (Inset r n)) = (if Dx r <s 2 * n then go_div (X (Min_pt r) + X (Max_pt r)) 2 else X (Max_pt r) - n)"
  "Y (Min_pt (Inset r n)) = (if Dy r <s 2 * n then go_div (Y (Min_pt r) + Y (Max_pt r)) 2 else Y (Min_pt r) + n)"
  "Y (Max_pt (Inset r n)) = (if Dy r <s 2 * n then go_div (Y (Min_pt r) + Y (Max_pt r)) 2 else Y (Max_pt r) - n)"
  by (simp_all add: Inset_def Let_def Dx_def Dy_def)

text \<open>
  At the edge of \<^verbatim>\<open>V\<close>'s range the width wraps around. In \<^verbatim>\<open>int8\<close> the well-formed,
  non-empty rectangle from \<open>(-128, 0)\<close> to \<open>(127, 5)\<close> has \<^verbatim>\<open>Dx() = -1\<close>, so
  \<^verbatim>\<open>Inset(0)\<close> collapses its \<^verbatim>\<open>X\<close> axis and returns an empty rectangle.
\<close>

lemma Inset_0_overflow:
  "well_formed \<lparr>Min_pt = Pt (- 128) 0, Max_pt = Pt 127 5 :: 8 word Point\<rparr> \<and>
   \<not> Empty \<lparr>Min_pt = Pt (- 128) 0, Max_pt = Pt 127 5 :: 8 word Point\<rparr> \<and>
   Inset \<lparr>Min_pt = Pt (- 128) 0, Max_pt = Pt 127 5\<rparr> (0 :: 8 word) = \<lparr>Min_pt = Pt 0 0, Max_pt = Pt 0 5\<rparr> \<and>
   \<not> Rectangle_Eq (Inset \<lparr>Min_pt = Pt (- 128) 0, Max_pt = Pt 127 5\<rparr> (0 :: 8 word))
       \<lparr>Min_pt = Pt (- 128) 0, Max_pt = Pt 127 5\<rparr>"
  by (simp add: Inset_def Dx_def Dy_def go_div_def Pt_def well_formed_def Empty_def Rectangle_Eq_def
      signed_divide_int_def signed_eval)

section \<open>The claims\<close>

subsection \<open>C1: \<^verbatim>\<open>Mod\<close>\<close>

text \<open>
  Claim C1: for every point \<open>p\<close> and every non-empty well-formed rectangle \<open>r\<close>,
  \<^verbatim>\<open>Mod(p, r)\<close> is the point \<open>q\<close> inside \<open>r\<close> with \<open>p.X - q.X\<close> a multiple of
  \<^verbatim>\<open>r.Dx()\<close> and \<open>p.Y - q.Y\<close> a multiple of \<^verbatim>\<open>r.Dy()\<close>. The doc comment of \<^verbatim>\<open>Mod\<close>
  says the same, but the code drops the remainder it computes and only adds the
  width or height once to a negative offset. For \<open>p = Pt(25, 3)\<close> and
  \<open>r = Rect(0, 0, 10, 10)\<close>, which is well-formed and not empty, it returns
  \<open>p\<close> itself, and that point is not in \<open>r\<close>.
\<close>

theorem Point_Mod_leaves_rectangle:
  "well_formed (Rect 0 0 10 10 :: 64 word Rectangle) \<and>
   \<not> Empty (Rect 0 0 10 10 :: 64 word Rectangle) \<and>
   Point_Mod (Pt 25 3) (Rect 0 0 10 10 :: 64 word Rectangle) = Pt 25 3 \<and>
   \<not> Point_In (Point_Mod (Pt 25 3) (Rect 0 0 10 10 :: 64 word Rectangle)) (Rect 0 0 10 10)"
  by (simp add: Point_Mod_def Point_In_def Point_Sub_def Point_Add_def Pt_def Rect_def
      Dx_def Dy_def well_formed_def Empty_def signed_eval)

subsection \<open>C2: well-formed results\<close>



subsection \<open>C3: \<^verbatim>\<open>Intersect\<close>\<close>

text \<open>
  Claim C3: \<^verbatim>\<open>Intersect(r, s)\<close> is the rectangle with \<open>Min\<close> the componentwise
  maximum of \<open>r.Min\<close> and \<open>s.Min\<close> and \<open>Max\<close> the componentwise minimum of \<open>r.Max\<close>
  and \<open>s.Max\<close> when that rectangle is not empty, and the all-zero rectangle when it
  is; and \<open>Rect(0,0,10,10).Intersect(Rect(5,5,15,15)) = Rect(5,5,10,10)\<close>. It holds
  for all rectangles, well-formed or not.
\<close>

theorem Intersect_is_spec_bounds:
  "Intersect r s = (if Empty (spec_bounds r s) then ZR else spec_bounds r s) \<and>
   Intersect (Rect 0 0 10 10 :: 64 word Rectangle) (Rect 5 5 15 15) = Rect 5 5 10 10"
  by (simp add: Intersect_spec_bounds)
    (simp add: spec_bounds_def smax_def smin_def Empty_def Rect_def signed_eval)

subsection \<open>C4: \<^verbatim>\<open>Eq\<close>\<close>

text \<open>
  Claim C4: \<^verbatim>\<open>Eq(r, s)\<close> holds if and only if \<open>r\<close> and \<open>s\<close> are identical or both are
  empty, where empty means \<open>Min.X >= Max.X\<close> or \<open>Min.Y >= Max.Y\<close>; and
  \<open>Rect(5,5,5,5)\<close>, which is not the zero rectangle, is \<^verbatim>\<open>Eq\<close>-equal to it.
\<close>

theorem Rectangle_Eq_iff:
  "(Rectangle_Eq r s \<longleftrightarrow> r = s \<or> Empty r \<and> Empty s) \<and>
   (Empty r \<longleftrightarrow> X (Max_pt r) \<le>s X (Min_pt r) \<or> Y (Max_pt r) \<le>s Y (Min_pt r)) \<and>
   Rectangle_Eq (Rect 5 5 5 5 :: 64 word Rectangle) ZR \<and>
   Rect 5 5 5 5 \<noteq> (ZR :: 64 word Rectangle)"
  by (simp add: Rectangle_Eq_def Empty_def) (simp add: Rect_def ZR_def signed_eval)

subsection \<open>C5: an empty operand\<close>




subsection \<open>C6: commutativity\<close>



subsection \<open>C7: \<^verbatim>\<open>Inset\<close>\<close>

text \<open>
  Claim C7: on each axis by itself, \<^verbatim>\<open>Inset(r, n)\<close> adds \<open>n\<close> to \<open>Min\<close> and subtracts
  \<open>n\<close> from \<open>Max\<close>, unless the dimension of \<open>r\<close> on that axis is less than \<open>2n\<close>:
  then both coordinates become \<open>(Min + Max) / 2\<close>; and
  \<open>Rect(0,0,10,10).Inset(6) = Rect(5,5,5,5)\<close>. The dimension, \<open>2n\<close> and the sum
  are computed in \<^verbatim>\<open>V\<close>.
\<close>

theorem Inset_per_axis:
  "X (Min_pt (Inset r n)) = (if Dx r <s 2 * n then go_div (X (Min_pt r) + X (Max_pt r)) 2 else X (Min_pt r) + n) \<and>
   X (Max_pt (Inset r n)) = (if Dx r <s 2 * n then go_div (X (Min_pt r) + X (Max_pt r)) 2 else X (Max_pt r) - n) \<and>
   Y (Min_pt (Inset r n)) = (if Dy r <s 2 * n then go_div (Y (Min_pt r) + Y (Max_pt r)) 2 else Y (Min_pt r) + n) \<and>
   Y (Max_pt (Inset r n)) = (if Dy r <s 2 * n then go_div (Y (Min_pt r) + Y (Max_pt r)) 2 else Y (Max_pt r) - n) \<and>
   Inset (Rect 0 0 10 10 :: 64 word Rectangle) 6 = Rect 5 5 5 5"
  by (simp add: Inset_fields) (simp add: Inset_def Dx_def Dy_def go_div_def Rect_def signed_eval)

subsection \<open>C8: \<^verbatim>\<open>In\<close>\<close>

text \<open>
  Claim C8: \<^verbatim>\<open>In(p, r)\<close> holds if and only if \<open>r.Min.X <= p.X < r.Max.X\<close> and
  \<open>r.Min.Y <= p.Y < r.Max.Y\<close>; no point is in an empty rectangle;
  \<open>Pt(2,2)\<close> is in \<open>Rect(0,0,5,5)\<close> and \<open>Pt(5,5)\<close> is not.
\<close>

theorem Point_In_iff:
  "(Point_In p r \<longleftrightarrow>
      X (Min_pt r) \<le>s X p \<and> X p <s X (Max_pt r) \<and> Y (Min_pt r) \<le>s Y p \<and> Y p <s Y (Max_pt r)) \<and>
   (Empty r \<longrightarrow> \<not> Point_In p r) \<and>
   Point_In (Pt 2 2) (Rect 0 0 5 5 :: 64 word Rectangle) \<and>
   \<not> Point_In (Pt 5 5) (Rect 0 0 5 5 :: 64 word Rectangle)"
  by (simp add: Point_In_Empty) (simp add: Point_In_def Pt_def Rect_def signed_eval)

theorem Point_In_iff_witness:
  "Empty (Rect 4 0 4 9 :: 64 word Rectangle) \<and>
   \<not> Point_In (Pt 4 3) (Rect 4 0 4 9 :: 64 word Rectangle)"
proof -
  have e: "Empty (Rect 4 0 4 9 :: 64 word Rectangle)"
    by (simp add: Empty_def Rect_def signed_eval)
  from Point_In_iff [of "Pt 4 3" "Rect 4 0 4 9"] e
  show ?thesis by blast
qed

subsection \<open>C9: \<^verbatim>\<open>Inset(0)\<close>\<close>



subsection \<open>C10: \<^verbatim>\<open>Overlaps\<close>\<close>


end
